theory Spec2Isabelle
  imports Main "HOL-Library.Word"
begin

section \<open>JavaScript values the backend handles\<close>

text \<open>
  The two backend files, \<^verbatim>\<open>server.js\<close> and \<^verbatim>\<open>wsProxy.js\<close>, only ever look at
  values that came out of \<^verbatim>\<open>JSON.parse\<close> (or \<^verbatim>\<open>response.json()\<close>) and at object literals
  they hand to \<^verbatim>\<open>JSON.stringify\<close>. Such a value is a tree of the following shape. An object
  keeps its properties in insertion order, as \<^verbatim>\<open>JSON.stringify\<close> prints them, and has
  no property name twice. A number is
  held as the text \<^verbatim>\<open>JSON.stringify\<close> prints for it (\<^verbatim>\<open>0\<close> for both zeros): the code never
  computes with numbers, it only tests them for truthiness and prints them, so IEEE
  arithmetic is left out.
\<close>

datatype json =
    JNull
  | JBool bool
  | JNum string
  | JStr string
  | JArr "json list"
  | JObj "(string \<times> json) list"

text \<open>
  Exceptions. \<^verbatim>\<open>SyntaxError\<close> is what \<^verbatim>\<open>JSON.parse\<close> throws, \<^verbatim>\<open>TypeError\<close> what reading a
  property of \<^verbatim>\<open>null\<close> throws, \<^verbatim>\<open>Error\<close> covers \<^verbatim>\<open>new Error(...)\<close> of the code itself and the
  errors raised by the \<^verbatim>\<open>ws\<close> and \<^verbatim>\<open>node-fetch\<close> packages. Each carries its \<^verbatim>\<open>message\<close>.
\<close>

datatype js_error = SyntaxError string | TypeError string | Error string

fun message :: "js_error \<Rightarrow> string" where
  "message (SyntaxError m) = m"
| "message (TypeError m) = m"
| "message (Error m) = m"

text \<open>
  \<^verbatim>\<open>v.name\<close> for the property names the code reads (\<^verbatim>\<open>type\<close>, \<^verbatim>\<open>action\<close>, \<^verbatim>\<open>wsUrl\<close>,
  \<^verbatim>\<open>ws_url\<close>, \<^verbatim>\<open>websocketUrl\<close>; none of them is inherited from a prototype).
  \<open>None\<close> is \<^verbatim>\<open>undefined\<close>. Reading a property of \<^verbatim>\<open>null\<close> throws; of a boolean, number,
  string or array it gives \<^verbatim>\<open>undefined\<close>; of an object its own property.
\<close>

fun get_prop :: "json \<Rightarrow> string \<Rightarrow> js_error + json option" where
  "get_prop JNull name =
     Inl (TypeError (''Cannot read properties of null (reading '' @ [CHR 0x27] @ name @ [CHR 0x27] @ '')''))"
| "get_prop (JObj props) name = Inr (map_of props name)"
| "get_prop _ name = Inr None"

text \<open>JavaScript truthiness of a value or of \<^verbatim>\<open>undefined\<close>.\<close>

fun truthy :: "json option \<Rightarrow> bool" where
  "truthy None = False"
| "truthy (Some JNull) = False"
| "truthy (Some (JBool b)) = b"
| "truthy (Some (JNum t)) = (t \<noteq> ''0'')"
| "truthy (Some (JStr s)) = (s \<noteq> [])"
| "truthy (Some (JArr _)) = True"
| "truthy (Some (JObj _)) = True"

subsection \<open>\<^verbatim>\<open>JSON.stringify\<close>\<close>

text \<open>
  The compact serialisation of ECMAScript: no white space, properties in order, strings
  quoted with the two-character escapes for quote, backslash, backspace, form feed, line
  feed, carriage return and tab, and \<^verbatim>\<open>\u00xx\<close> for the other control characters.
\<close>

definition dquote :: char where
  "dquote = CHR 0x22"

definition backslash :: char where
  "backslash = CHR 0x5C"

definition hex_digit :: "nat \<Rightarrow> char" where
  "hex_digit n = (''0123456789abcdef'' ! (n mod 16))"

definition escape_char :: "char \<Rightarrow> string" where
  "escape_char c =
     (if c = dquote then [backslash, dquote]
      else if c = backslash then [backslash, backslash]
      else if c = CHR 0x08 then [backslash, CHR ''b'']
      else if c = CHR 0x0C then [backslash, CHR ''f'']
      else if c = CHR 0x0A then [backslash, CHR ''n'']
      else if c = CHR 0x0D then [backslash, CHR ''r'']
      else if c = CHR 0x09 then [backslash, CHR ''t'']
      else if (of_char c :: nat) < 32
        then [backslash, CHR ''u'', CHR ''0'', CHR ''0'',
              hex_digit (of_char c div 16), hex_digit (of_char c)]
      else [c])"

definition quote :: "string \<Rightarrow> string" where
  "quote s = [dquote] @ concat (map escape_char s) @ [dquote]"

fun join :: "string \<Rightarrow> string list \<Rightarrow> string" where
  "join sep [] = []"
| "join sep [x] = x"
| "join sep (x # y # ys) = x @ sep @ join sep (y # ys)"

fun JSON_stringify :: "json \<Rightarrow> string" where
  "JSON_stringify JNull = ''null''"
| "JSON_stringify (JBool b) = (if b then ''true'' else ''false'')"
| "JSON_stringify (JNum t) = t"
| "JSON_stringify (JStr s) = quote s"
| "JSON_stringify (JArr vs) = ''['' @ join '','' (map JSON_stringify vs) @ '']''"
| "JSON_stringify (JObj props) =
     ''{'' @ join '','' (map (\<lambda>(k, v). quote k @ '':'' @ JSON_stringify v) props) @ ''}''"

section \<open>WebSocket connections (the \<^verbatim>\<open>ws\<close> package)\<close>

text \<open>
  The values \<^verbatim>\<open>send\<close> is given and a message listener may be given: a string or a binary
  buffer. \<^verbatim>\<open>send\<close> transmits a string as a text frame and a buffer as a binary frame, so
  the same type stands for the frames on the wire: \<open>Text\<close> is a text frame with its
  payload, \<open>Binary\<close> a binary frame.
\<close>

datatype ws_data = Text string | Binary "8 word list"

text \<open>The bytes of a text (a \<open>char\<close> is a byte).\<close>

definition utf8 :: "string \<Rightarrow> 8 word list" where
  "utf8 s = map of_char s"

text \<open>
  What a message listener is given for a frame that arrived. \<^verbatim>\<open>server.js\<close> imports the name
  \<^verbatim>\<open>WebSocketServer\<close> from \<^verbatim>\<open>ws\<close>, which the package exports from version 8 on, and from
  that version on a listener is called as \<^verbatim>\<open>(data, isBinary)\<close> with \<^verbatim>\<open>data\<close> a buffer for a text
  frame as well as for a binary one. The listeners of \<^verbatim>\<open>wsProxy.js\<close> take the first
  argument only.
\<close>

fun as_received :: "ws_data \<Rightarrow> ws_data" where
  "as_received (Text s) = Binary (utf8 s)"
| "as_received (Binary bytes) = Binary bytes"

datatype ready_state = CONNECTING | OPEN | CLOSING | CLOSED

text \<open>
  What the handlers can observe and change of a connection: its \<^verbatim>\<open>readyState\<close>, and the
  frames \<^verbatim>\<open>send\<close> has accepted for transmission, oldest first. \<open>broken\<close> marks a connection
  on which the library's calls raise; the handlers guard against it with \<^verbatim>\<open>try\<close>/\<^verbatim>\<open>catch\<close>.
\<close>

record websocket =
  readyState :: ready_state
  sent :: "ws_data list"
  broken :: bool

text \<open>
  \<^verbatim>\<open>ws.send(data)\<close>: throws while the connection is still being established, hands the
  frame over when it is open, and discards it once closing has begun.
\<close>

definition ws_send :: "websocket \<Rightarrow> ws_data \<Rightarrow> js_error + websocket" where
  "ws_send w d =
     (if broken w then Inl (Error ''WebSocket failure'')
      else if readyState w = CONNECTING
        then Inl (Error ''WebSocket is not open: readyState 0 (CONNECTING)'')
      else if readyState w = OPEN then Inr (w\<lparr>sent := sent w @ [d]\<rparr>)
      else Inr w)"

text \<open>
  \<^verbatim>\<open>ws.send(data, cb)\<close>: as above, and a frame discarded after closing has begun is
  reported to the callback; the second component is the error the callback receives.
\<close>

definition ws_send_cb :: "websocket \<Rightarrow> ws_data \<Rightarrow> js_error + (websocket \<times> js_error option)" where
  "ws_send_cb w d =
     (if broken w then Inl (Error ''WebSocket failure'')
      else if readyState w = CONNECTING
        then Inl (Error ''WebSocket is not open: readyState 0 (CONNECTING)'')
      else if readyState w = OPEN then Inr (w\<lparr>sent := sent w @ [d]\<rparr>, None)
      else Inr (w, Some (Error ''WebSocket is not open'')))"

text \<open>
  \<^verbatim>\<open>ws.close()\<close>: nothing to do on a closed connection; otherwise the closing handshake
  starts (or the opening handshake is aborted) and the state becomes \<^verbatim>\<open>CLOSING\<close>.
\<close>

definition ws_close :: "websocket \<Rightarrow> js_error + websocket" where
  "ws_close w =
     (if broken w then Inl (Error ''WebSocket failure'')
      else if readyState w = CLOSED then Inr w
      else Inr (w\<lparr>readyState := CLOSING\<rparr>))"

text \<open>\<^verbatim>\<open>try { body } catch { handler }\<close> on results.\<close>

definition try_catch :: "(js_error + 'a) \<Rightarrow> (js_error \<Rightarrow> js_error + 'a) \<Rightarrow> js_error + 'a" where
  "try_catch body handler = (case body of Inl e \<Rightarrow> handler e | Inr x \<Rightarrow> Inr x)"

section \<open>\<^verbatim>\<open>wsProxy.js\<close>: the relay between a client and the upstream connection\<close>

text \<open>
  What \<^verbatim>\<open>console.log\<close>, \<^verbatim>\<open>console.warn\<close> and \<^verbatim>\<open>console.error\<close> were given, call by call.
\<close>

datatype logged = Str string | Num nat | Val "json option" | Err js_error

type_synonym console = "logged list list"

datatype promise_state = Pending | Resolved | Rejected js_error

text \<open>
  The variables the handlers registered by \<^verbatim>\<open>createProxyConnection\<close> close over: the two
  connections, the address and \<^verbatim>\<open>Authorization\<close> header the upstream connection was
  constructed with, and the state of the promise the function returned.
\<close>

record bridge =
  clientWs :: websocket
  remoteWs :: websocket
  remoteWsUrl :: json
  authorization :: string
  promise :: promise_state
  console :: console

definition log :: "logged list \<Rightarrow> bridge \<Rightarrow> bridge" where
  "log entry b = b\<lparr>console := console b @ [entry]\<rparr>"

text \<open>\<^verbatim>\<open>resolve()\<close> and \<^verbatim>\<open>reject(err)\<close> settle a pending promise and do nothing to a settled one.\<close>

definition settle :: "promise_state \<Rightarrow> promise_state \<Rightarrow> promise_state" where
  "settle outcome p = (if p = Pending then outcome else p)"

text \<open>The frames the code builds itself.\<close>

definition proxy_ready_frame :: ws_data where
  "proxy_ready_frame = Text (JSON_stringify (JObj [(''type'', JStr ''proxy_ready'')]))"

definition error_frame :: "string \<Rightarrow> ws_data" where
  "error_frame m = Text (JSON_stringify (JObj [(''type'', JStr ''error''), (''message'', JStr m)]))"

definition input_stop_frame :: ws_data where
  "input_stop_frame = Text (JSON_stringify (JObj [(''type'', JStr ''input.stop'')]))"

subsection \<open>Handlers of the upstream connection\<close>

text \<open>
  Every handler maps the bridge to the bridge after it has run, or to the exception that
  escaped it (\<open>Inl\<close>). \<^verbatim>\<open>remoteWs.on("open")\<close> sends without a guard.
\<close>

definition remote_on_open :: "bridge \<Rightarrow> js_error + bridge" where
  "remote_on_open b =
     (let b1 = log [Str ''Connected to Gemini remote WS''] b in
      case ws_send (clientWs b1) proxy_ready_frame of
        Inl e \<Rightarrow> Inl e
      | Inr c \<Rightarrow> Inr (b1\<lparr>clientWs := c, promise := settle Resolved (promise b1)\<rparr>))"

definition remote_on_message :: "bridge \<Rightarrow> ws_data \<Rightarrow> js_error + bridge" where
  "remote_on_message b data =
     try_catch
       (case ws_send (clientWs b) data of
          Inl e \<Rightarrow> Inl e
        | Inr c \<Rightarrow> Inr (b\<lparr>clientWs := c\<rparr>))
       (\<lambda>err. Inr (log [Str ''Error sending to client:'', Err err] b))"

definition remote_on_close :: "bridge \<Rightarrow> nat \<Rightarrow> string \<Rightarrow> js_error + bridge" where
  "remote_on_close b code reason =
     (let b1 = log [Str ''Remote WS closed:'', Num code, Str reason] b in
      try_catch
        (case ws_close (clientWs b1) of
           Inl e \<Rightarrow> Inl e
         | Inr c \<Rightarrow> Inr (b1\<lparr>clientWs := c\<rparr>))
        (\<lambda>e. Inr b1))"

definition remote_on_error :: "bridge \<Rightarrow> js_error \<Rightarrow> js_error + bridge" where
  "remote_on_error b err =
     (let b1 = log [Str ''Remote WS error:'', Err err] b in
      try_catch
        (case ws_send (clientWs b1) (error_frame ''Remote WS error'') of
           Inl e \<Rightarrow> Inl e
         | Inr c \<Rightarrow> Inr (b1\<lparr>clientWs := c\<rparr>))
        (\<lambda>e. Inr b1))"

subsection \<open>Handlers of the client connection\<close>

text \<open>
  \<^verbatim>\<open>parsed.type === "control" && parsed.action === "stop"\<close>: the right operand is only
  read when the left one holds, and the first property read throws on \<^verbatim>\<open>null\<close>.
\<close>

definition is_stop :: "json \<Rightarrow> js_error + bool" where
  "is_stop parsed =
     (case get_prop parsed ''type'' of
        Inl e \<Rightarrow> Inl e
      | Inr t \<Rightarrow>
          if t = Some (JStr ''control'')
          then (case get_prop parsed ''action'' of
                  Inl e \<Rightarrow> Inl e
                | Inr a \<Rightarrow> Inr (a = Some (JStr ''stop'')))
          else Inr False)"

text \<open>
  \<^verbatim>\<open>clientWs.on("message")\<close>. \<^verbatim>\<open>JSON.parse\<close> is a parameter: a function from the text to the
  parsed value or the \<^verbatim>\<open>SyntaxError\<close> it throws. The \<^verbatim>\<open>try\<close> block holds the parse, the two
  property reads and the send, so the \<^verbatim>\<open>catch\<close> block, which forwards the text as it came,
  runs for an exception of any of them. The send in the \<^verbatim>\<open>catch\<close> block and the send of a
  binary message have no guard.
\<close>

definition client_on_message ::
  "(string \<Rightarrow> js_error + json) \<Rightarrow> bridge \<Rightarrow> ws_data \<Rightarrow> js_error + bridge" where
  "client_on_message JSON_parse b msg =
     (case msg of
        Text s \<Rightarrow>
          try_catch
            (case JSON_parse s of
               Inl e \<Rightarrow> Inl e
             | Inr parsed \<Rightarrow>
                 (case is_stop parsed of
                    Inl e \<Rightarrow> Inl e
                  | Inr stop \<Rightarrow>
                      (case ws_send (remoteWs b)
                              (if stop then input_stop_frame
                               else Text (JSON_stringify parsed)) of
                         Inl e \<Rightarrow> Inl e
                       | Inr r \<Rightarrow> Inr (b\<lparr>remoteWs := r\<rparr>))))
            (\<lambda>err.
               let b1 = log [Str ''Invalid client JSON message; forwarding as text:'', Err err] b in
               case ws_send (remoteWs b1) (Text s) of
                 Inl e \<Rightarrow> Inl e
               | Inr r \<Rightarrow> Inr (b1\<lparr>remoteWs := r\<rparr>))
      | Binary bytes \<Rightarrow>
          (case ws_send_cb (remoteWs b) (Binary bytes) of
             Inl e \<Rightarrow> Inl e
           | Inr (r, None) \<Rightarrow> Inr (b\<lparr>remoteWs := r\<rparr>)
           | Inr (r, Some err) \<Rightarrow>
               Inr (log [Str ''Error forwarding binary to remote:'', Err err] (b\<lparr>remoteWs := r\<rparr>))))"

definition client_on_close :: "bridge \<Rightarrow> js_error + bridge" where
  "client_on_close b =
     (let b1 = log [Str ''Client WS closed, closing remote WS...''] b in
      try_catch
        (case ws_close (remoteWs b1) of
           Inl e \<Rightarrow> Inl e
         | Inr r \<Rightarrow> Inr (b1\<lparr>remoteWs := r\<rparr>))
        (\<lambda>e. Inr b1))"

definition client_on_error :: "bridge \<Rightarrow> js_error \<Rightarrow> js_error + bridge" where
  "client_on_error b err =
     (let b1 = log [Str ''Client WS error:'', Err err] b in
      try_catch
        (case ws_close (remoteWs b1) of
           Inl e \<Rightarrow> Inl e
         | Inr r \<Rightarrow> Inr (b1\<lparr>remoteWs := r\<rparr>))
        (\<lambda>e. Inr b1))"

subsection \<open>\<^verbatim>\<open>createProxyConnection\<close>\<close>

text \<open>
  \<^verbatim>\<open>remoteSession.wsUrl || remoteSession.ws_url || remoteSession.websocketUrl\<close>, read
  left to right; a later property is only read when the earlier ones are falsy.
\<close>

definition resolve_remoteWsUrl :: "json \<Rightarrow> js_error + json option" where
  "resolve_remoteWsUrl remoteSession =
     (case get_prop remoteSession ''wsUrl'' of
        Inl e \<Rightarrow> Inl e
      | Inr u1 \<Rightarrow>
          if truthy u1 then Inr u1
          else (case get_prop remoteSession ''ws_url'' of
                  Inl e \<Rightarrow> Inl e
                | Inr u2 \<Rightarrow>
                    if truthy u2 then Inr u2
                    else get_prop remoteSession ''websocketUrl''))"

text \<open>The template string \<^verbatim>\<open>`Bearer ${apiKey}`\<close>; an unset environment variable is \<^verbatim>\<open>undefined\<close>.\<close>

definition bearer :: "string option \<Rightarrow> string" where
  "bearer apiKey = ''Bearer '' @ (case apiKey of None \<Rightarrow> ''undefined'' | Some k \<Rightarrow> k)"

text \<open>
  \<^verbatim>\<open>new WebSocket(address, options)\<close> throws when it cannot use the address; whether it
  can is the library's decision and a parameter here. The new connection is \<^verbatim>\<open>CONNECTING\<close>.
\<close>

definition new_WebSocket :: "(json \<Rightarrow> bool) \<Rightarrow> json \<Rightarrow> js_error + websocket" where
  "new_WebSocket valid_address address =
     (if valid_address address
      then Inr \<lparr>readyState = CONNECTING, sent = [], broken = False\<rparr>
      else Inl (SyntaxError ''Invalid URL''))"

text \<open>
  The promise executor runs at once. \<open>Inl\<close>: the promise is rejected before any upstream
  connection exists, by \<^verbatim>\<open>reject\<close> or by an exception of the executor. \<open>Inr\<close>: the upstream
  connection has been constructed, the handlers above are registered and the promise is
  pending.
\<close>

definition createProxyConnection ::
  "(json \<Rightarrow> bool) \<Rightarrow> websocket \<Rightarrow> json \<Rightarrow> string option \<Rightarrow> js_error + bridge" where
  "createProxyConnection valid_address client remoteSession apiKey =
     (case resolve_remoteWsUrl remoteSession of
        Inl e \<Rightarrow> Inl e
      | Inr u \<Rightarrow>
          if \<not> truthy u
          then Inl (Error ''Remote session does not include a wsUrl. Check session creation response.'')
          else (case new_WebSocket valid_address (the u) of
                  Inl e \<Rightarrow> Inl e
                | Inr remote \<Rightarrow>
                    Inr \<lparr>clientWs = client, remoteWs = remote, remoteWsUrl = the u,
                         authorization = bearer apiKey, promise = Pending, console = []\<rparr>))"

subsection \<open>The stop command\<close>

text \<open>
  The control frame the handler translates, in the words of the specification: an object
  whose \<^verbatim>\<open>type\<close> is the string \<^verbatim>\<open>control\<close> and whose \<^verbatim>\<open>action\<close> is the string \<^verbatim>\<open>stop\<close>.
\<close>

definition stop_command :: "json \<Rightarrow> bool" where
  "stop_command parsed \<longleftrightarrow>
     (case parsed of
        JObj props \<Rightarrow>
          map_of props ''type'' = Some (JStr ''control'') \<and>
          map_of props ''action'' = Some (JStr ''stop'')
      | _ \<Rightarrow> False)"

subsection \<open>The events of a bridge\<close>

text \<open>
  The events the two connections emit, and what each one does to the bridge. Before it
  emits an event the library has set the \<^verbatim>\<open>readyState\<close> of the connection the event
  belongs to: \<^verbatim>\<open>OPEN\<close> for \<^verbatim>\<open>open\<close>, \<^verbatim>\<open>CLOSED\<close> for \<^verbatim>\<open>close\<close>, \<^verbatim>\<open>CLOSING\<close> for \<^verbatim>\<open>error\<close>. A message
  event carries the frame that arrived, and its listener is given that frame
  \<open>as_received\<close>. Then the handler runs. Node runs one handler at a time, to completion;
  an exception that escapes a handler ends the process, so delivery stops there.
\<close>

datatype event =
    UpstreamOpen
  | UpstreamMessage ws_data
  | UpstreamClose nat string
  | UpstreamError js_error
  | ClientMessage ws_data
  | ClientClose
  | ClientError js_error

definition remote_becomes :: "ready_state \<Rightarrow> bridge \<Rightarrow> bridge" where
  "remote_becomes st b = b\<lparr>remoteWs := (remoteWs b)\<lparr>readyState := st\<rparr>\<rparr>"

definition client_becomes :: "ready_state \<Rightarrow> bridge \<Rightarrow> bridge" where
  "client_becomes st b = b\<lparr>clientWs := (clientWs b)\<lparr>readyState := st\<rparr>\<rparr>"

fun handle :: "(string \<Rightarrow> js_error + json) \<Rightarrow> bridge \<Rightarrow> event \<Rightarrow> js_error + bridge" where
  "handle JSON_parse b UpstreamOpen = remote_on_open (remote_becomes OPEN b)"
| "handle JSON_parse b (UpstreamMessage frame) = remote_on_message b (as_received frame)"
| "handle JSON_parse b (UpstreamClose code reason) =
     remote_on_close (remote_becomes CLOSED b) code reason"
| "handle JSON_parse b (UpstreamError err) = remote_on_error (remote_becomes CLOSING b) err"
| "handle JSON_parse b (ClientMessage frame) = client_on_message JSON_parse b (as_received frame)"
| "handle JSON_parse b ClientClose = client_on_close (client_becomes CLOSED b)"
| "handle JSON_parse b (ClientError err) = client_on_error (client_becomes CLOSING b) err"

fun deliver :: "(string \<Rightarrow> js_error + json) \<Rightarrow> bridge \<Rightarrow> event list \<Rightarrow> js_error + bridge" where
  "deliver JSON_parse b [] = Inr b"
| "deliver JSON_parse b (ev # evs) =
     (case handle JSON_parse b ev of
        Inl e \<Rightarrow> Inl e
      | Inr b' \<Rightarrow> deliver JSON_parse b' evs)"

text \<open>
  The library never emits \<^verbatim>\<open>error\<close> alone: a connection that fails emits \<^verbatim>\<open>error\<close> and then
  \<^verbatim>\<open>close\<close>, with nothing in between.
\<close>

definition upstream_failure :: "js_error \<Rightarrow> nat \<Rightarrow> string \<Rightarrow> event list" where
  "upstream_failure err code reason = [UpstreamError err, UpstreamClose code reason]"

text \<open>The frames a list of events brings in from either side, in order of arrival.\<close>

fun from_upstream :: "event list \<Rightarrow> ws_data list" where
  "from_upstream [] = []"
| "from_upstream (UpstreamMessage frame # evs) = frame # from_upstream evs"
| "from_upstream (ev # evs) = from_upstream evs"

fun from_client :: "event list \<Rightarrow> ws_data list" where
  "from_client [] = []"
| "from_client (ClientMessage frame # evs) = frame # from_client evs"
| "from_client (ev # evs) = from_client evs"

fun is_message :: "event \<Rightarrow> bool" where
  "is_message (UpstreamMessage frame) = True"
| "is_message (ClientMessage frame) = True"
| "is_message ev = False"

text \<open>A connection on which \<^verbatim>\<open>send\<close> transmits: it is open and its calls do not raise.\<close>

definition usable :: "websocket \<Rightarrow> bool" where
  "usable w \<longleftrightarrow> readyState w = OPEN \<and> \<not> broken w"

section \<open>\<^verbatim>\<open>server.js\<close>: session creation and the \<^verbatim>\<open>/ws\<close> endpoint\<close>

text \<open>
  The state of the process: the in-memory \<^verbatim>\<open>sessionsMap\<close> and its console.
\<close>

record server =
  sessionsMap :: "string \<rightharpoonup> json"
  serverConsole :: console

definition server_log :: "logged list \<Rightarrow> server \<Rightarrow> server" where
  "server_log entry s = s\<lparr>serverConsole := serverConsole s @ [entry]\<rparr>"

text \<open>
  What \<^verbatim>\<open>await fetch(...)\<close> gives the handler: a rejection, or a response with its \<^verbatim>\<open>ok\<close>
  flag, its \<^verbatim>\<open>status\<close> and the text of its body.
\<close>

datatype fetch_outcome = FetchRejects js_error | FetchResponse bool nat string

record http_response =
  statusCode :: nat
  jsonBody :: json

text \<open>
  \<^verbatim>\<open>app.get("/session")\<close>. \<open>uuid\<close> is the value \<^verbatim>\<open>uuidv4()\<close> returns when it is called;
  \<^verbatim>\<open>response.json()\<close> parses the body with the parameter \<open>JSON_parse\<close>. Whatever is thrown
  inside the \<^verbatim>\<open>try\<close> block ends in the \<^verbatim>\<open>catch\<close> block's answer.
\<close>

definition get_session ::
  "(string \<Rightarrow> js_error + json) \<Rightarrow> server \<Rightarrow> fetch_outcome \<Rightarrow> string \<Rightarrow> server \<times> http_response" where
  "get_session JSON_parse s outcome uuid =
     (case
        (case outcome of
           FetchRejects e \<Rightarrow> Inl e
         | FetchResponse ok status body \<Rightarrow>
             if \<not> ok
             then (let errText = body in
                   Inr (server_log [Str ''Failed to create session:'', Num status, Str errText] s,
                        \<lparr>statusCode = 500,
                         jsonBody = JObj [(''error'', JStr ''Failed to create remote session''),
                                          (''details'', JStr errText)]\<rparr>))
             else (case JSON_parse body of
                     Inl e \<Rightarrow> Inl e
                   | Inr data \<Rightarrow>
                       (let sessionId = uuid in
                        Inr (s\<lparr>sessionsMap := (sessionsMap s)(sessionId \<mapsto> data)\<rparr>,
                             \<lparr>statusCode = 200,
                              jsonBody = JObj [(''ok'', JBool True), (''sessionId'', JStr sessionId),
                                               (''remoteSession'', data)]\<rparr>))))
      of
        Inr answer \<Rightarrow> answer
      | Inl err \<Rightarrow>
          (server_log [Str ''Error /session:'', Err err] s,
           \<lparr>statusCode = 500, jsonBody = JObj [(''error'', JStr (message err))]\<rparr>))"

text \<open>
  How a \<^verbatim>\<open>/ws\<close> connection ends up once the handler and the promise's \<^verbatim>\<open>catch\<close> callback
  have run: turned away, with the client connection as it was left and no upstream
  connection ever constructed, or bridged.
\<close>

datatype connection = Refused websocket | Bridged bridge

text \<open>
  \<^verbatim>\<open>wss.on("connection")\<close>, from the \<^verbatim>\<open>sessionId\<close> query parameter on (\<open>None\<close> when the
  request has none: \<^verbatim>\<open>searchParams.get\<close> gives \<^verbatim>\<open>null\<close>, which is no key of the map).
  The send and the close of the first branch and the close of the \<^verbatim>\<open>catch\<close> callback have
  no guard.
\<close>

definition on_connection ::
  "(json \<Rightarrow> bool) \<Rightarrow> string option \<Rightarrow> server \<Rightarrow> websocket \<Rightarrow> string option
     \<Rightarrow> js_error + (server \<times> connection)" where
  "on_connection valid_address apiKey s client sessionId =
     (let s1 = server_log [Str ''Client connected to /ws, sessionId:'',
                           Val (map_option JStr sessionId)] s;
          remoteSession = (case sessionId of None \<Rightarrow> None | Some k \<Rightarrow> sessionsMap s1 k)
      in
      if \<not> truthy remoteSession
      then (case ws_send client (error_frame ''Invalid sessionId or session expired'') of
              Inl e \<Rightarrow> Inl e
            | Inr c \<Rightarrow>
                (case ws_close c of
                   Inl e \<Rightarrow> Inl e
                 | Inr c' \<Rightarrow> Inr (s1, Refused c')))
      else (case createProxyConnection valid_address client (the remoteSession) apiKey of
              Inr b \<Rightarrow> Inr (s1, Bridged b)
            | Inl err \<Rightarrow>
                (let s2 = server_log [Str ''Proxy connection error:'', Err err] s1;
                     c = (case ws_send client (error_frame ''Proxy error'') of
                            Inl e \<Rightarrow> client
                          | Inr c \<Rightarrow> c)
                 in case ws_close c of
                      Inl e \<Rightarrow> Inl e
                    | Inr c' \<Rightarrow> Inr (s2, Refused c'))))"

subsection \<open>The process over time\<close>

text \<open>
  The requests that reach the server state: a \<^verbatim>\<open>GET /session\<close>, with what \<^verbatim>\<open>fetch\<close> and
  \<^verbatim>\<open>uuidv4\<close> gave it, and a connection to \<^verbatim>\<open>/ws\<close> with its \<^verbatim>\<open>sessionId\<close>. The handlers of an
  established bridge close over their two connections only and cannot reach the state.
  The connection the library hands to \<^verbatim>\<open>wss.on("connection")\<close> is open and nothing has
  been sent on it.
\<close>

datatype request = GetSession fetch_outcome string | WsConnect "string option"

definition accepted_client :: websocket where
  "accepted_client = \<lparr>readyState = OPEN, sent = [], broken = False\<rparr>"

definition serve ::
  "(string \<Rightarrow> js_error + json) \<Rightarrow> (json \<Rightarrow> bool) \<Rightarrow> string option \<Rightarrow> server \<Rightarrow> request
     \<Rightarrow> js_error + server" where
  "serve JSON_parse valid_address apiKey s r =
     (case r of
        GetSession outcome uuid \<Rightarrow> Inr (fst (get_session JSON_parse s outcome uuid))
      | WsConnect sessionId \<Rightarrow>
          (case on_connection valid_address apiKey s accepted_client sessionId of
             Inl e \<Rightarrow> Inl e
           | Inr (s', c) \<Rightarrow> Inr s'))"

text \<open>An exception that escapes a handler ends the process: the run stops there.\<close>

fun run ::
  "(string \<Rightarrow> js_error + json) \<Rightarrow> (json \<Rightarrow> bool) \<Rightarrow> string option \<Rightarrow> server \<Rightarrow> request list
     \<Rightarrow> js_error + server" where
  "run JSON_parse valid_address apiKey s [] = Inr s"
| "run JSON_parse valid_address apiKey s (r # rs) =
     (case serve JSON_parse valid_address apiKey s r of
        Inl e \<Rightarrow> Inl e
      | Inr s' \<Rightarrow> run JSON_parse valid_address apiKey s' rs)"

text \<open>The identifiers \<^verbatim>\<open>uuidv4\<close> produced in a list of requests.\<close>

fun generated :: "request \<Rightarrow> string set" where
  "generated (GetSession outcome uuid) = {uuid}"
| "generated (WsConnect sessionId) = {}"

subsection \<open>What a guarded close leaves behind\<close>

text \<open>
  \<^verbatim>\<open>try { w.close(); } catch {}\<close> takes the connection \<open>w\<close> to \<open>w'\<close>: when the call raises,
  the connection is as it was; otherwise it is closing or closed, with the frames it had.
\<close>

definition closed_best_effort :: "websocket \<Rightarrow> websocket \<Rightarrow> bool" where
  "closed_best_effort w w' \<longleftrightarrow>
     (if broken w then w' = w
      else readyState w' \<in> {CLOSING, CLOSED} \<and> sent w' = sent w \<and> \<not> broken w')"

section \<open>Concrete inputs\<close>

text \<open>
  The values of \<^verbatim>\<open>JSON.parse\<close> on the texts the examples below use. The examples apply
  it to these texts and to \<^verbatim>\<open>{type:\<close> and \<^verbatim>\<open>upstream is down\<close>, which are no JSON.
\<close>

definition JSON_parse_sample :: "string \<Rightarrow> js_error + json" where
  \<open>JSON_parse_sample s =
     (if s = ''{"type":"control","action":"stop"}''
        then Inr (JObj [(''type'', JStr ''control''), (''action'', JStr ''stop'')])
      else if s = ''{"wsUrl":"wss://upstream.example/live"}''
        then Inr (JObj [(''wsUrl'', JStr ''wss://upstream.example/live'')])
      else if s = ''{"session":"s-1"}''
        then Inr (JObj [(''session'', JStr ''s-1'')])
      else Inl (SyntaxError ''Unexpected token''))\<close>

text \<open>A connection that is open, and a bridge whose two connections are.\<close>

definition open_ws :: websocket where
  "open_ws = \<lparr>readyState = OPEN, sent = [], broken = False\<rparr>"

definition live_bridge :: bridge where
  "live_bridge =
     \<lparr>clientWs = open_ws, remoteWs = open_ws,
      remoteWsUrl = JStr ''wss://upstream.example/live'', authorization = ''Bearer k'',
      promise = Resolved, console = []\<rparr>"

text \<open>A server that has registered one session, under the identifier \<^verbatim>\<open>id-1\<close>.\<close>

definition one_session :: server where
  "one_session =
     \<lparr>sessionsMap = [''id-1'' \<mapsto> JObj [(''wsUrl'', JStr ''wss://upstream.example/live'')]],
      serverConsole = []\<rparr>"

text \<open>A server whose only session, \<^verbatim>\<open>id-9\<close>, came back from the remote service without an address.\<close>

definition addressless_session :: server where
  "addressless_session =
     \<lparr>sessionsMap = [''id-9'' \<mapsto> JObj [(''session'', JStr ''s-1'')]], serverConsole = []\<rparr>"

text \<open>A bridge whose upstream connection raises on every call.\<close>

definition broken_upstream :: bridge where
  "broken_upstream = live_bridge\<lparr>remoteWs := open_ws\<lparr>broken := True\<rparr>\<rparr>"

text \<open>
  The bridge \<^verbatim>\<open>createProxyConnection\<close> returns for that session: the upstream connection
  has been constructed and is not open yet.
\<close>

definition connecting_bridge :: bridge where
  "connecting_bridge =
     \<lparr>clientWs = open_ws,
      remoteWs = \<lparr>readyState = CONNECTING, sent = [], broken = False\<rparr>,
      remoteWsUrl = JStr ''wss://upstream.example/live'', authorization = ''Bearer k'',
      promise = Pending, console = []\<rparr>"

text \<open>
  A server whose only session, \<^verbatim>\<open>id-0\<close>, holds \<^verbatim>\<open>null\<close>: the remote service answered the
  session request with success and the body \<^verbatim>\<open>null\<close>.
\<close>

definition null_session :: server where
  "null_session = \<lparr>sessionsMap = [''id-0'' \<mapsto> JNull], serverConsole = []\<rparr>"

text \<open>Requests reaching the server one after the other.\<close>

definition sample_requests :: "request list" where
  \<open>sample_requests =
     [WsConnect (Some ''id-1''),
      GetSession (FetchResponse True 200 ''{"session":"s-1"}'') ''id-2'',
      WsConnect (Some ''id-1''),
      GetSession (FetchResponse False 503 ''upstream is down'') ''id-3'',
      WsConnect (Some ''bogus''),
      WsConnect None,
      WsConnect (Some ''id-2'')]\<close>

text \<open>A \<^verbatim>\<open>WebSocket\<close> constructor that accepts every address.\<close>

definition any_address :: "json \<Rightarrow> bool" where
  "any_address a = True"

section \<open>Properties\<close>

subsection \<open>The frames the code builds\<close>

lemma input_stop_frame_text: \<open>input_stop_frame = Text ''{"type":"input.stop"}''\<close>
  by (simp add: input_stop_frame_def quote_def escape_char_def dquote_def backslash_def)

lemma invalid_session_frame_text:
  \<open>error_frame ''Invalid sessionId or session expired'' =
     Text ''{"type":"error","message":"Invalid sessionId or session expired"}''\<close>
  by (simp add: error_frame_def quote_def escape_char_def dquote_def backslash_def)

lemma proxy_error_frame_text:
  \<open>error_frame ''Proxy error'' = Text ''{"type":"error","message":"Proxy error"}''\<close>
  by (simp add: error_frame_def quote_def escape_char_def dquote_def backslash_def)

lemma remote_error_frame_text:
  \<open>error_frame ''Remote WS error'' = Text ''{"type":"error","message":"Remote WS error"}''\<close>
  by (simp add: error_frame_def quote_def escape_char_def dquote_def backslash_def)

subsection \<open>Sending and closing\<close>

lemma ws_send_usable: "usable w \<Longrightarrow> ws_send w d = Inr (w\<lparr>sent := sent w @ [d]\<rparr>)"
  by (simp add: usable_def ws_send_def)

lemma ws_send_cb_usable: "usable w \<Longrightarrow> ws_send_cb w d = Inr (w\<lparr>sent := sent w @ [d]\<rparr>, None)"
  by (simp add: usable_def ws_send_cb_def)

lemma ws_send_sent:
  "ws_send w d = Inr w' \<Longrightarrow> sent w' = sent w @ [d] \<or> sent w' = sent w"
  by (auto simp: ws_send_def split: if_splits)

lemma ws_send_cb_sent:
  "ws_send_cb w d = Inr (w', r) \<Longrightarrow> sent w' = sent w @ [d] \<or> sent w' = sent w"
  by (auto simp: ws_send_cb_def split: if_splits)

lemma usable_open_ws: "usable open_ws"
  by (simp add: usable_def open_ws_def)

lemma usable_live_bridge: "usable (remoteWs live_bridge)" "usable (clientWs live_bridge)"
  by (simp_all add: live_bridge_def usable_open_ws)

lemma accepted_client_usable: "usable accepted_client"
  by (simp add: accepted_client_def usable_def)

subsection \<open>What the message listeners are given\<close>

lemma as_received_binary: "\<exists>bytes. as_received frame = Binary bytes"
  by (cases frame) simp_all

lemma as_received_not_text: "as_received frame \<noteq> Text s"
  by (cases frame) simp_all

lemma on_binary:
  assumes "usable (remoteWs b)"
  shows "client_on_message JSON_parse b (Binary bytes) =
           Inr (b\<lparr>remoteWs := (remoteWs b)\<lparr>sent := sent (remoteWs b) @ [Binary bytes]\<rparr>\<rparr>)"
  using assms by (simp add: client_on_message_def ws_send_cb_usable)

lemma client_frame_forwarded:
  assumes "usable (remoteWs b)"
  shows "handle JSON_parse b (ClientMessage frame) =
           Inr (b\<lparr>remoteWs := (remoteWs b)\<lparr>sent := sent (remoteWs b) @ [as_received frame]\<rparr>\<rparr>)"
proof -
  obtain bytes where "as_received frame = Binary bytes"
    using as_received_binary by blast
  with assms show ?thesis by (simp add: on_binary)
qed

lemma remote_on_message_usable:
  "usable (clientWs b) \<Longrightarrow>
     remote_on_message b data =
       Inr (b\<lparr>clientWs := (clientWs b)\<lparr>sent := sent (clientWs b) @ [data]\<rparr>\<rparr>)"
  by (simp add: remote_on_message_def try_catch_def ws_send_usable)

lemma upstream_frame_forwarded:
  assumes "usable (clientWs b)"
  shows "handle JSON_parse b (UpstreamMessage frame) =
           Inr (b\<lparr>clientWs := (clientWs b)\<lparr>sent := sent (clientWs b) @ [as_received frame]\<rparr>\<rparr>)"
  using assms by (simp add: remote_on_message_usable)

text \<open>
  What does hold of the two directions on an established bridge: every frame that
  arrives is handed to the other side once, with its payload and in order of arrival,
  as a buffer.
\<close>

lemma payloads_cross_in_order:
  assumes "usable (clientWs b)" and "usable (remoteWs b)"
    and "\<forall>ev \<in> set evs. is_message ev"
  shows "\<exists>b'. deliver JSON_parse b evs = Inr b' \<and>
              sent (clientWs b') = sent (clientWs b) @ map as_received (from_upstream evs) \<and>
              sent (remoteWs b') = sent (remoteWs b) @ map as_received (from_client evs)"
  using assms
proof (induction evs arbitrary: b)
  case Nil
  then show ?case by simp
next
  case (Cons ev evs)
  from Cons.prems(3) have msg: "is_message ev" and rest: "\<forall>ev \<in> set evs. is_message ev"
    by simp_all
  show ?case
  proof (cases ev)
    case (UpstreamMessage frame)
    let ?b1 = "b\<lparr>clientWs := (clientWs b)\<lparr>sent := sent (clientWs b) @ [as_received frame]\<rparr>\<rparr>"
    from Cons.prems(1) have step: "handle JSON_parse b (UpstreamMessage frame) = Inr ?b1"
      by (rule upstream_frame_forwarded)
    from Cons.prems(1,2) have "usable (clientWs ?b1)" and "usable (remoteWs ?b1)"
      by (simp_all add: usable_def)
    from Cons.IH [OF this rest] obtain b' where
      "deliver JSON_parse ?b1 evs = Inr b'"
      "sent (clientWs b') = sent (clientWs ?b1) @ map as_received (from_upstream evs)"
      "sent (remoteWs b') = sent (remoteWs ?b1) @ map as_received (from_client evs)"
      by blast
    with step UpstreamMessage show ?thesis by simp
  next
    case (ClientMessage frame)
    let ?b1 = "b\<lparr>remoteWs := (remoteWs b)\<lparr>sent := sent (remoteWs b) @ [as_received frame]\<rparr>\<rparr>"
    from Cons.prems(2) have step: "handle JSON_parse b (ClientMessage frame) = Inr ?b1"
      by (rule client_frame_forwarded)
    from Cons.prems(1,2) have "usable (clientWs ?b1)" and "usable (remoteWs ?b1)"
      by (simp_all add: usable_def)
    from Cons.IH [OF this rest] obtain b' where
      "deliver JSON_parse ?b1 evs = Inr b'"
      "sent (clientWs b') = sent (clientWs ?b1) @ map as_received (from_upstream evs)"
      "sent (remoteWs b') = sent (remoteWs ?b1) @ map as_received (from_client evs)"
      by blast
    with step ClientMessage show ?thesis by simp
  qed (use msg in simp_all)
qed

text \<open>
  Once the upstream connection has opened, the bridge \<^verbatim>\<open>createProxyConnection\<close> returned
  is live: the client has been told and the next client frame goes upstream.
\<close>

lemma bridge_goes_live:
  \<open>deliver JSON_parse connecting_bridge [UpstreamOpen, ClientMessage (Binary [1, 2, 3])] =
     Inr (connecting_bridge
           \<lparr>clientWs := open_ws\<lparr>sent := [Text ''{"type":"proxy_ready"}'']\<rparr>,
            remoteWs := \<lparr>readyState = OPEN, sent = [Binary [1, 2, 3]], broken = False\<rparr>,
            promise := Resolved,
            console := [[Str ''Connected to Gemini remote WS'']]\<rparr>)\<close>
  by (simp add: connecting_bridge_def open_ws_def remote_on_open_def remote_becomes_def
        client_on_message_def ws_send_def ws_send_cb_def log_def Let_def settle_def
        proxy_ready_frame_def quote_def escape_char_def dquote_def backslash_def)

subsection \<open>The sample values of \<^verbatim>\<open>JSON.parse\<close>\<close>

lemma parse_stop:
  \<open>JSON_parse_sample ''{"type":"control","action":"stop"}'' =
     Inr (JObj [(''type'', JStr ''control''), (''action'', JStr ''stop'')])\<close>
  by (simp add: JSON_parse_sample_def)

lemma parse_malformed: \<open>JSON_parse_sample ''{type:'' = Inl (SyntaxError ''Unexpected token'')\<close>
  by (simp add: JSON_parse_sample_def)

lemma parse_session:
  \<open>JSON_parse_sample ''{"wsUrl":"wss://upstream.example/live"}'' =
     Inr (JObj [(''wsUrl'', JStr ''wss://upstream.example/live'')])\<close>
  by (simp add: JSON_parse_sample_def)

lemma is_stop_iff: "is_stop parsed = Inr True \<longleftrightarrow> stop_command parsed"
  by (cases parsed) (auto simp: is_stop_def stop_command_def)

lemma stop_command_stop:
  "stop_command (JObj [(''type'', JStr ''control''), (''action'', JStr ''stop'')])"
  by (simp add: stop_command_def)

subsection \<open>Client to upstream\<close>

text \<open>
  C1: the code does not do this. A client text frame arrives at the message listener
  as a buffer, so \<^verbatim>\<open>typeof msg === "string"\<close> is false and the branch that parses and
  translates never runs. On a live bridge the text frame
  \<^verbatim>\<open>{"type":"control","action":"stop"}\<close>, which parses to a stop command, goes upstream as
  one binary frame holding the bytes received: the original frame verbatim, and no
  interrupt frame.
\<close>

theorem stop_command_goes_upstream_untranslated:
  \<open>JSON_parse_sample ''{"type":"control","action":"stop"}'' =
     Inr (JObj [(''type'', JStr ''control''), (''action'', JStr ''stop'')])
   \<and> stop_command (JObj [(''type'', JStr ''control''), (''action'', JStr ''stop'')])
   \<and> handle JSON_parse_sample live_bridge
        (ClientMessage (Text ''{"type":"control","action":"stop"}'')) =
       Inr (live_bridge
             \<lparr>remoteWs := open_ws\<lparr>sent := [Binary (utf8 ''{"type":"control","action":"stop"}'')]\<rparr>\<rparr>)
   \<and> Binary (utf8 ''{"type":"control","action":"stop"}'') \<noteq> Text ''{"type":"input.stop"}''\<close>
  using client_frame_forwarded
          [of live_bridge JSON_parse_sample \<open>Text ''{"type":"control","action":"stop"}''\<close>]
  by (simp add: parse_stop stop_command_stop live_bridge_def open_ws_def usable_def)

text \<open>
  C9: the code does not do this. No frame a client sends, in whatever state the bridge
  is, makes the message handler put the text frame \<^verbatim>\<open>{"type":"input.stop"}\<close> upstream:
  what the handler adds upstream, if anything, is the frame it was given, as a buffer.
  So nothing else causes the interrupt frame, and a stop command does not either.
\<close>

theorem no_client_frame_yields_input_stop:
  assumes \<open>handle JSON_parse b (ClientMessage frame) = Inr b'\<close>
  shows \<open>sent (remoteWs b') \<noteq> sent (remoteWs b) @ [Text ''{"type":"input.stop"}'']
         \<and> (sent (remoteWs b') = sent (remoteWs b) @ [as_received frame]
              \<or> sent (remoteWs b') = sent (remoteWs b))\<close>
proof -
  obtain bytes where bytes: "as_received frame = Binary bytes"
    using as_received_binary by blast
  with assms have "client_on_message JSON_parse b (Binary bytes) = Inr b'" by simp
  then have "sent (remoteWs b') = sent (remoteWs b) @ [Binary bytes]
               \<or> sent (remoteWs b') = sent (remoteWs b)"
    by (auto simp: client_on_message_def log_def split: sum.splits prod.splits option.splits
             dest!: ws_send_cb_sent)
  with bytes show ?thesis by auto
qed

theorem no_client_frame_yields_input_stop_witness:
  \<open>handle JSON_parse_sample live_bridge
      (ClientMessage (Text ''{"type":"control","action":"stop"}'')) =
     Inr (live_bridge
           \<lparr>remoteWs := open_ws\<lparr>sent := [Binary (utf8 ''{"type":"control","action":"stop"}'')]\<rparr>\<rparr>)
   \<and> sent (open_ws\<lparr>sent := [Binary (utf8 ''{"type":"control","action":"stop"}'')]\<rparr>) \<noteq>
       sent (remoteWs live_bridge) @ [Text ''{"type":"input.stop"}'']\<close>
proof -
  have step: \<open>handle JSON_parse_sample live_bridge
      (ClientMessage (Text ''{"type":"control","action":"stop"}'')) =
     Inr (live_bridge
           \<lparr>remoteWs := open_ws\<lparr>sent := [Binary (utf8 ''{"type":"control","action":"stop"}'')]\<rparr>\<rparr>)\<close>
    using client_frame_forwarded
            [of live_bridge JSON_parse_sample \<open>Text ''{"type":"control","action":"stop"}''\<close>]
    by (simp add: live_bridge_def open_ws_def usable_def)
  from no_client_frame_yields_input_stop [OF step] step show ?thesis by simp
qed

text \<open>
  C7: the code does not do this. The message handlers are registered as soon as
  \<^verbatim>\<open>createProxyConnection\<close> has constructed the upstream connection, which is then still
  connecting. A client frame that arrives before the upstream connection has opened,
  here the text \<^verbatim>\<open>{type:\<close>, which is no JSON, is handed to \<^verbatim>\<open>remoteWs.send\<close> without a guard;
  the call raises, the exception escapes the handler, nothing is forwarded and the
  process ends. The same holds of the send in the \<^verbatim>\<open>catch\<close> block, were the handler given
  the text as a string.
\<close>

theorem malformed_frame_before_upstream_opens_raises:
  \<open>createProxyConnection any_address open_ws
      (JObj [(''wsUrl'', JStr ''wss://upstream.example/live'')]) (Some ''k'') =
     Inr connecting_bridge
   \<and> handle JSON_parse_sample connecting_bridge (ClientMessage (Text ''{type:'')) =
       Inl (Error ''WebSocket is not open: readyState 0 (CONNECTING)'')
   \<and> JSON_parse_sample ''{type:'' = Inl (SyntaxError ''Unexpected token'')
   \<and> client_on_message JSON_parse_sample connecting_bridge (Text ''{type:'') =
       Inl (Error ''WebSocket is not open: readyState 0 (CONNECTING)'')\<close>
  by (simp add: createProxyConnection_def resolve_remoteWsUrl_def new_WebSocket_def
        any_address_def bearer_def connecting_bridge_def open_ws_def parse_malformed
        client_on_message_def try_catch_def ws_send_def ws_send_cb_def log_def Let_def)

subsection \<open>Upstream to client\<close>

text \<open>
  C3: the code does not do this. The listener of the upstream connection is given a
  buffer for a text frame too and passes it to \<^verbatim>\<open>clientWs.send\<close>, which transmits a buffer
  as a binary frame. On a live bridge the upstream text frame \<^verbatim>\<open>{"type":"turn.done"}\<close>
  reaches the client as a binary frame with the same bytes: the framing kind is not
  preserved.
\<close>

theorem upstream_text_frame_reaches_client_as_binary:
  \<open>handle JSON_parse_sample live_bridge (UpstreamMessage (Text ''{"type":"turn.done"}'')) =
     Inr (live_bridge\<lparr>clientWs := open_ws\<lparr>sent := [Binary (utf8 ''{"type":"turn.done"}'')]\<rparr>\<rparr>)
   \<and> Binary (utf8 ''{"type":"turn.done"}'') \<noteq> Text ''{"type":"turn.done"}''\<close>
  using upstream_frame_forwarded
          [of live_bridge JSON_parse_sample \<open>Text ''{"type":"turn.done"}''\<close>]
  by (simp add: live_bridge_def open_ws_def usable_def)

subsection \<open>Teardown\<close>

text \<open>
  C4. When the upstream connection fails (the library emits \<^verbatim>\<open>error\<close> and then \<^verbatim>\<open>close\<close>),
  the bridge never raises. A client connection that is open is sent exactly the frame
  \<^verbatim>\<open>{"type":"error","message":"Remote WS error"}\<close> and is then closed. The attempts are
  best effort: a client connection whose calls raise is left as it was, and any other
  one ends closing or closed.
\<close>

theorem upstream_error_notifies_and_closes_client:
  \<open>\<exists>b'. deliver JSON_parse b (upstream_failure err code reason) = Inr b'
        \<and> readyState (remoteWs b') = CLOSED
        \<and> (usable (clientWs b) \<longrightarrow>
             clientWs b' =
               (clientWs b)\<lparr>sent := sent (clientWs b) @
                                [Text ''{"type":"error","message":"Remote WS error"}''],
                             readyState := CLOSING\<rparr>)
        \<and> (\<not> broken (clientWs b) \<longrightarrow> readyState (clientWs b') \<in> {CLOSING, CLOSED})
        \<and> (broken (clientWs b) \<longrightarrow> clientWs b' = clientWs b)\<close>
  by (simp add: upstream_failure_def remote_on_error_def remote_on_close_def remote_becomes_def
        try_catch_def Let_def log_def ws_send_def ws_close_def usable_def
        remote_error_frame_text)

theorem upstream_error_notifies_and_closes_client_witness:
  \<open>usable (clientWs live_bridge)
   \<and> (\<exists>b'. deliver JSON_parse_sample live_bridge
               (upstream_failure (Error ''socket hang up'') 1006 []) = Inr b'
         \<and> readyState (remoteWs b') = CLOSED
         \<and> clientWs b' =
             \<lparr>readyState = CLOSING,
              sent = [Text ''{"type":"error","message":"Remote WS error"}''],
              broken = False\<rparr>)\<close>
  using upstream_error_notifies_and_closes_client
          [of JSON_parse_sample live_bridge "Error ''socket hang up''" 1006 "[]"]
  by (auto simp: live_bridge_def open_ws_def usable_def)

text \<open>
  C5. The handlers of the client's \<^verbatim>\<open>close\<close> and \<^verbatim>\<open>error\<close> events call \<^verbatim>\<open>close\<close> on the
  upstream connection, and the handler of the upstream \<^verbatim>\<open>close\<close> event calls \<^verbatim>\<open>close\<close> on
  the client connection, all within the handler's own run. None of the three ever
  raises: when the call goes through, the other side is closing or closed when the
  handler returns; when the call raises, the exception is swallowed and the connection
  is left as it was.
\<close>

theorem teardown_closes_the_other_side:
  "(\<exists>b'. client_on_close b = Inr b' \<and> clientWs b' = clientWs b \<and>
          closed_best_effort (remoteWs b) (remoteWs b'))
   \<and> (\<exists>b'. client_on_error b err = Inr b' \<and> clientWs b' = clientWs b \<and>
          closed_best_effort (remoteWs b) (remoteWs b'))
   \<and> (\<exists>b'. remote_on_close b code reason = Inr b' \<and> remoteWs b' = remoteWs b \<and>
          closed_best_effort (clientWs b) (clientWs b'))"
  by (simp add: client_on_close_def client_on_error_def remote_on_close_def try_catch_def
        Let_def log_def ws_close_def closed_best_effort_def)

theorem teardown_closes_the_other_side_witness:
  "(\<exists>b'. client_on_close live_bridge = Inr b' \<and> readyState (remoteWs b') \<in> {CLOSING, CLOSED})
   \<and> (\<exists>b'. client_on_error live_bridge (Error ''read ECONNRESET'') = Inr b' \<and>
          readyState (remoteWs b') \<in> {CLOSING, CLOSED})
   \<and> (\<exists>b'. remote_on_close live_bridge 1000 [] = Inr b' \<and>
          readyState (clientWs b') \<in> {CLOSING, CLOSED})
   \<and> (\<exists>b'. client_on_close broken_upstream = Inr b' \<and> remoteWs b' = remoteWs broken_upstream)"
  using teardown_closes_the_other_side [of live_bridge "Error ''read ECONNRESET''" 1000 "[]"]
    teardown_closes_the_other_side [of broken_upstream "Error ''read ECONNRESET''" 1000 "[]"]
  by (auto simp: closed_best_effort_def live_bridge_def open_ws_def broken_upstream_def)

subsection \<open>The \<^verbatim>\<open>/ws\<close> endpoint\<close>

text \<open>
  C2. A connection to \<^verbatim>\<open>/ws\<close> whose session identifier is not in the registry (or that
  carries none) is sent exactly the frame
  \<^verbatim>\<open>{"type":"error","message":"Invalid sessionId or session expired"}\<close>, its connection is
  closed, and it ends turned away: no upstream connection is constructed. The registry
  is left as it was.
\<close>

theorem unknown_session_is_refused:
  assumes \<open>\<forall>k. sessionId = Some k \<longrightarrow> sessionsMap s k = None\<close>
    and \<open>usable client\<close>
  shows \<open>\<exists>s'. on_connection valid_address apiKey s client sessionId =
           Inr (s', Refused (client
                  \<lparr>sent := sent client @
                     [Text ''{"type":"error","message":"Invalid sessionId or session expired"}''],
                   readyState := CLOSING\<rparr>))
         \<and> sessionsMap s' = sessionsMap s\<close>
  using assms
  by (cases sessionId)
     (simp_all add: on_connection_def Let_def server_log_def ws_send_def ws_close_def
        usable_def invalid_session_frame_text)

theorem unknown_session_is_refused_witness:
  \<open>sessionsMap one_session ''bogus'' = None
   \<and> usable open_ws
   \<and> (\<exists>s'. on_connection any_address (Some ''k'') one_session open_ws (Some ''bogus'') =
           Inr (s', Refused
                  \<lparr>readyState = CLOSING,
                   sent = [Text ''{"type":"error","message":"Invalid sessionId or session expired"}''],
                   broken = False\<rparr>)
         \<and> sessionsMap s' = sessionsMap one_session)\<close>
proof -
  have absent: "\<forall>k. Some ''bogus'' = Some k \<longrightarrow> sessionsMap one_session k = None"
    by (simp add: one_session_def)
  from unknown_session_is_refused
         [of "Some ''bogus''" one_session open_ws any_address "Some ''k''",
          OF absent usable_open_ws]
  have \<open>\<exists>s'. on_connection any_address (Some ''k'') one_session open_ws (Some ''bogus'') =
           Inr (s', Refused
                  \<lparr>readyState = CLOSING,
                   sent = [Text ''{"type":"error","message":"Invalid sessionId or session expired"}''],
                   broken = False\<rparr>)
         \<and> sessionsMap s' = sessionsMap one_session\<close>
    by (simp add: open_ws_def)
  with absent usable_open_ws show ?thesis by simp
qed

lemma createProxyConnection_no_address:
  assumes "truthy (Some remoteSession)"
    and "\<forall>u. resolve_remoteWsUrl remoteSession = Inr u \<longrightarrow> \<not> truthy u"
  shows "createProxyConnection valid_address client remoteSession apiKey =
           Inl (Error ''Remote session does not include a wsUrl. Check session creation response.'')"
proof -
  from assms(1) have "remoteSession \<noteq> JNull" by auto
  then have "\<exists>u. resolve_remoteWsUrl remoteSession = Inr u"
    by (cases remoteSession) (simp_all add: resolve_remoteWsUrl_def)
  then obtain u where u: "resolve_remoteWsUrl remoteSession = Inr u" ..
  with assms(2) have "\<not> truthy u" by simp
  with u show ?thesis by (simp add: createProxyConnection_def)
qed

text \<open>
  C8, as amended. For a registered session whose parameters yield no address (none of
  \<^verbatim>\<open>wsUrl\<close>, \<^verbatim>\<open>ws_url\<close>, \<^verbatim>\<open>websocketUrl\<close> is truthy), the connection ends turned away: the
  client is sent one error frame, its connection is closed, and no upstream connection
  is constructed. When the parameters are truthy, \<^verbatim>\<open>createProxyConnection\<close> rejects with
  the error "Remote session does not include a wsUrl" and the frame is
  \<^verbatim>\<open>{"type":"error","message":"Proxy error"}\<close>. When the parameters are themselves falsy
  (\<^verbatim>\<open>null\<close>, \<^verbatim>\<open>false\<close>, \<^verbatim>\<open>0\<close>, the empty string), the session is taken for an unknown one:
  \<^verbatim>\<open>createProxyConnection\<close> is not called and the frame is that of an unknown session.
\<close>

theorem missing_upstream_address_is_refused:
  assumes \<open>sessionsMap s k = Some remoteSession\<close>
    and \<open>\<forall>u. resolve_remoteWsUrl remoteSession = Inr u \<longrightarrow> \<not> truthy u\<close>
    and \<open>usable client\<close>
  shows \<open>(truthy (Some remoteSession) \<longrightarrow>
            createProxyConnection valid_address client remoteSession apiKey =
              Inl (Error ''Remote session does not include a wsUrl. Check session creation response.''))
         \<and> (\<exists>s'. on_connection valid_address apiKey s client (Some k) =
               Inr (s', Refused (client
                      \<lparr>sent := sent client @
                         [if truthy (Some remoteSession)
                          then Text ''{"type":"error","message":"Proxy error"}''
                          else Text ''{"type":"error","message":"Invalid sessionId or session expired"}''],
                       readyState := CLOSING\<rparr>))
              \<and> sessionsMap s' = sessionsMap s)\<close>
proof (cases "truthy (Some remoteSession)")
  case True
  from createProxyConnection_no_address [OF True assms(2)]
  have "createProxyConnection valid_address client remoteSession apiKey =
           Inl (Error ''Remote session does not include a wsUrl. Check session creation response.'')" .
  with True assms(1,3) show ?thesis
    by (simp add: on_connection_def Let_def server_log_def ws_send_def ws_close_def usable_def
          proxy_error_frame_text)
next
  case False
  with assms(1,3) show ?thesis
    by (simp add: on_connection_def Let_def server_log_def ws_send_def ws_close_def usable_def
          invalid_session_frame_text)
qed

theorem missing_upstream_address_is_refused_witness:
  \<open>sessionsMap addressless_session ''id-9'' = Some (JObj [(''session'', JStr ''s-1'')])
   \<and> resolve_remoteWsUrl (JObj [(''session'', JStr ''s-1'')]) = Inr None
   \<and> usable open_ws
   \<and> truthy (Some (JObj [(''session'', JStr ''s-1'')]))
   \<and> createProxyConnection any_address open_ws (JObj [(''session'', JStr ''s-1'')]) (Some ''k'') =
       Inl (Error ''Remote session does not include a wsUrl. Check session creation response.'')
   \<and> (\<exists>s'. on_connection any_address (Some ''k'') addressless_session open_ws (Some ''id-9'') =
           Inr (s', Refused
                  \<lparr>readyState = CLOSING,
                   sent = [Text ''{"type":"error","message":"Proxy error"}''],
                   broken = False\<rparr>)
         \<and> sessionsMap s' = sessionsMap addressless_session)\<close>
proof -
  have entry: "sessionsMap addressless_session ''id-9'' = Some (JObj [(''session'', JStr ''s-1'')])"
    by (simp add: addressless_session_def)
  have none: "\<forall>u. resolve_remoteWsUrl (JObj [(''session'', JStr ''s-1'')]) = Inr u \<longrightarrow> \<not> truthy u"
    by (simp add: resolve_remoteWsUrl_def)
  from missing_upstream_address_is_refused
         [of addressless_session "''id-9''" _ open_ws any_address "Some ''k''",
          OF entry none usable_open_ws]
  have \<open>createProxyConnection any_address open_ws (JObj [(''session'', JStr ''s-1'')]) (Some ''k'') =
       Inl (Error ''Remote session does not include a wsUrl. Check session creation response.'')
   \<and> (\<exists>s'. on_connection any_address (Some ''k'') addressless_session open_ws (Some ''id-9'') =
           Inr (s', Refused
                  \<lparr>readyState = CLOSING,
                   sent = [Text ''{"type":"error","message":"Proxy error"}''],
                   broken = False\<rparr>)
         \<and> sessionsMap s' = sessionsMap addressless_session)\<close>
    by (simp add: open_ws_def)
  with entry usable_open_ws show ?thesis by (simp add: resolve_remoteWsUrl_def)
qed

text \<open>
  C8 as stated fails on a registered session whose parameters are \<^verbatim>\<open>null\<close>: no address can
  be derived from them, yet the bridge does not fail with the missing-address error. The
  handler takes the session for an unknown one, answers with the frame of an unknown
  session and returns before \<^verbatim>\<open>createProxyConnection\<close>; the console holds no proxy error.
\<close>

theorem falsy_session_is_taken_for_unknown:
  \<open>sessionsMap null_session ''id-0'' = Some JNull
   \<and> on_connection any_address (Some ''k'') null_session open_ws (Some ''id-0'') =
       Inr (null_session
             \<lparr>serverConsole :=
                [[Str ''Client connected to /ws, sessionId:'', Val (Some (JStr ''id-0''))]]\<rparr>,
            Refused
              \<lparr>readyState = CLOSING,
               sent = [Text ''{"type":"error","message":"Invalid sessionId or session expired"}''],
               broken = False\<rparr>)\<close>
  by (simp add: on_connection_def Let_def server_log_def null_session_def open_ws_def
        ws_send_def ws_close_def invalid_session_frame_text)

subsection \<open>Session creation and the registry\<close>

text \<open>
  C6, as amended. When the remote endpoint answers with a non-success response, the
  client gets status 500 with the body \<^verbatim>\<open>{error: "Failed to create remote session",
  details: <remote body>}\<close>; the remote status is written to the console and is not part of
  the answer; the registry is unchanged. When the remote endpoint answers with a success
  response whose body is JSON, the parsed body is stored in the registry under the
  identifier \<^verbatim>\<open>uuidv4()\<close> returned, exactly as parsed, and the client gets status 200 with
  \<^verbatim>\<open>{ok: true, sessionId, remoteSession}\<close>.
\<close>

theorem session_creation_outcomes:
  \<open>get_session JSON_parse s (FetchResponse False status body) uuid =
       (s\<lparr>serverConsole := serverConsole s @
            [[Str ''Failed to create session:'', Num status, Str body]]\<rparr>,
        \<lparr>statusCode = 500,
         jsonBody = JObj [(''error'', JStr ''Failed to create remote session''),
                          (''details'', JStr body)]\<rparr>)
   \<and> sessionsMap (fst (get_session JSON_parse s (FetchResponse False status body) uuid)) =
       sessionsMap s
   \<and> (JSON_parse body = Inr data \<longrightarrow>
        get_session JSON_parse s (FetchResponse True status body) uuid =
          (s\<lparr>sessionsMap := (sessionsMap s)(uuid \<mapsto> data)\<rparr>,
           \<lparr>statusCode = 200,
            jsonBody = JObj [(''ok'', JBool True), (''sessionId'', JStr uuid),
                             (''remoteSession'', data)]\<rparr>)
        \<and> sessionsMap (fst (get_session JSON_parse s (FetchResponse True status body) uuid)) uuid =
            Some data)\<close>
  by (simp add: get_session_def server_log_def Let_def)

theorem session_creation_outcomes_witness:
  \<open>JSON_parse_sample ''{"wsUrl":"wss://upstream.example/live"}'' =
     Inr (JObj [(''wsUrl'', JStr ''wss://upstream.example/live'')])
   \<and> get_session JSON_parse_sample one_session
        (FetchResponse True 200 ''{"wsUrl":"wss://upstream.example/live"}'') ''id-2'' =
       (one_session\<lparr>sessionsMap := (sessionsMap one_session)
           (''id-2'' \<mapsto> JObj [(''wsUrl'', JStr ''wss://upstream.example/live'')])\<rparr>,
        \<lparr>statusCode = 200,
         jsonBody = JObj [(''ok'', JBool True), (''sessionId'', JStr ''id-2''),
                          (''remoteSession'',
                           JObj [(''wsUrl'', JStr ''wss://upstream.example/live'')])]\<rparr>)
   \<and> sessionsMap (fst (get_session JSON_parse_sample one_session
        (FetchResponse False 503 ''upstream is down'') ''id-2'')) = sessionsMap one_session\<close>
  using session_creation_outcomes
          [of JSON_parse_sample one_session 200 \<open>''{"wsUrl":"wss://upstream.example/live"}''\<close>
              "''id-2''" "JObj [(''wsUrl'', JStr ''wss://upstream.example/live'')]"]
        session_creation_outcomes
          [of JSON_parse_sample one_session 503 "''upstream is down''" "''id-2''" JNull]
        parse_session
  by simp

text \<open>
  C6 as stated fails in one part: the answer to the client does not carry the remote
  status. For the remote statuses 503 and 404 with the same body the answers are the
  same, status 500 with the two properties \<^verbatim>\<open>error\<close> and \<^verbatim>\<open>details\<close>.
\<close>

theorem remote_status_is_not_in_the_answer:
  \<open>snd (get_session JSON_parse_sample one_session
          (FetchResponse False 503 ''upstream is down'') ''id-2'') =
     \<lparr>statusCode = 500,
      jsonBody = JObj [(''error'', JStr ''Failed to create remote session''),
                       (''details'', JStr ''upstream is down'')]\<rparr>
   \<and> snd (get_session JSON_parse_sample one_session
          (FetchResponse False 404 ''upstream is down'') ''id-2'') =
     snd (get_session JSON_parse_sample one_session
          (FetchResponse False 503 ''upstream is down'') ''id-2'')\<close>
  by (simp add: get_session_def Let_def)

lemma get_session_other_keys:
  "k \<noteq> uuid \<Longrightarrow> sessionsMap (fst (get_session JSON_parse s outcome uuid)) k = sessionsMap s k"
  by (auto simp: get_session_def server_log_def Let_def split: fetch_outcome.splits sum.splits)

lemma on_connection_accepted:
  assumes "usable client"
  shows "\<exists>s' c. on_connection valid_address apiKey s client sessionId = Inr (s', c) \<and>
                sessionsMap s' = sessionsMap s"
proof -
  let ?rs = "case sessionId of None \<Rightarrow> None | Some k \<Rightarrow> sessionsMap s k"
  show ?thesis
  proof (cases "truthy ?rs")
    case False
    with assms show ?thesis
      by (cases sessionId)
         (simp_all add: on_connection_def Let_def server_log_def ws_send_def ws_close_def usable_def)
  next
    case True
    then obtain k where k: "sessionId = Some k" by (cases sessionId) auto
    show ?thesis
    proof (cases "createProxyConnection valid_address client (the (sessionsMap s k)) apiKey")
      case (Inl e)
      with True k assms show ?thesis
        by (simp add: on_connection_def Let_def server_log_def ws_send_def ws_close_def usable_def)
    next
      case (Inr br)
      with True k assms show ?thesis
        by (simp add: on_connection_def Let_def server_log_def)
    qed
  qed
qed

lemma on_connection_depends_on_entry:
  assumes "sessionsMap s k = sessionsMap t k"
  shows "map_sum id snd (on_connection valid_address apiKey s client (Some k)) =
         map_sum id snd (on_connection valid_address apiKey t client (Some k))"
  using assms
  by (simp add: on_connection_def Let_def server_log_def split: sum.splits)

lemma serve_keeps_entry:
  assumes "k \<notin> generated r"
  shows "\<exists>s'. serve JSON_parse valid_address apiKey s r = Inr s' \<and>
              sessionsMap s' k = sessionsMap s k"
proof (cases r)
  case (GetSession outcome uuid)
  with assms have "k \<noteq> uuid" by simp
  with GetSession show ?thesis by (simp add: serve_def get_session_other_keys)
next
  case (WsConnect sessionId)
  from on_connection_accepted [OF accepted_client_usable, of valid_address apiKey s sessionId]
  obtain s' c where "on_connection valid_address apiKey s accepted_client sessionId = Inr (s', c)"
    and "sessionsMap s' = sessionsMap s" by blast
  with WsConnect show ?thesis by (simp add: serve_def)
qed

lemma run_keeps_entry:
  assumes "\<forall>r \<in> set rs. k \<notin> generated r"
  shows "\<exists>s'. run JSON_parse valid_address apiKey s rs = Inr s' \<and>
              sessionsMap s' k = sessionsMap s k"
  using assms
proof (induction rs arbitrary: s)
  case Nil
  then show ?case by simp
next
  case (Cons r rs)
  then have "k \<notin> generated r" and rest: "\<forall>r \<in> set rs. k \<notin> generated r" by simp_all
  from serve_keeps_entry [OF this(1)] obtain s1 where
    s1: "serve JSON_parse valid_address apiKey s r = Inr s1" "sessionsMap s1 k = sessionsMap s k"
    by blast
  from Cons.IH [OF rest, of s1] obtain s' where
    "run JSON_parse valid_address apiKey s1 rs = Inr s'" "sessionsMap s' k = sessionsMap s1 k"
    by blast
  with s1 show ?case by simp
qed

text \<open>
  C10. Once an identifier is in the registry, every later request leaves its entry as
  it is, whatever sessions are created (under the other identifiers \<^verbatim>\<open>uuidv4\<close> produces)
  and however many connections to \<^verbatim>\<open>/ws\<close> are made, with this identifier or any other:
  the process keeps running, a later lookup returns the same parameters, and a later
  connection with the identifier ends exactly as an earlier one did, so it is bridged
  again whenever it was bridged before.
\<close>

theorem registry_entries_persist:
  assumes "sessionsMap s k = Some params"
    and "\<forall>r \<in> set rs. k \<notin> generated r"
  shows "\<exists>s'. run JSON_parse valid_address apiKey s rs = Inr s'
              \<and> sessionsMap s' k = Some params
              \<and> map_sum id snd (on_connection valid_address apiKey s' client (Some k)) =
                 map_sum id snd (on_connection valid_address apiKey s client (Some k))"
proof -
  from run_keeps_entry [OF assms(2), of JSON_parse valid_address apiKey s] obtain s' where
    r: "run JSON_parse valid_address apiKey s rs = Inr s'"
    and e: "sessionsMap s' k = sessionsMap s k"
    by blast
  from on_connection_depends_on_entry [OF e] r e assms(1) show ?thesis by simp
qed

theorem registry_entries_persist_witness:
  \<open>sessionsMap one_session ''id-1'' = Some (JObj [(''wsUrl'', JStr ''wss://upstream.example/live'')])
   \<and> list_all (\<lambda>r. ''id-1'' \<notin> generated r) sample_requests
   \<and> (\<exists>s'. run JSON_parse_sample any_address (Some ''k'') one_session sample_requests = Inr s'
         \<and> sessionsMap s' ''id-1'' = Some (JObj [(''wsUrl'', JStr ''wss://upstream.example/live'')])
         \<and> map_sum id snd (on_connection any_address (Some ''k'') s' accepted_client (Some ''id-1'')) =
            Inr (Bridged
                  \<lparr>clientWs = accepted_client,
                   remoteWs = \<lparr>readyState = CONNECTING, sent = [], broken = False\<rparr>,
                   remoteWsUrl = JStr ''wss://upstream.example/live'',
                   authorization = ''Bearer k'', promise = Pending, console = []\<rparr>))\<close>
proof -
  have entry: "sessionsMap one_session ''id-1'' =
                 Some (JObj [(''wsUrl'', JStr ''wss://upstream.example/live'')])"
    by (simp add: one_session_def)
  have fresh: "\<forall>r \<in> set sample_requests. ''id-1'' \<notin> generated r"
    by (simp add: sample_requests_def)
  have first: "map_sum id snd (on_connection any_address (Some ''k'') one_session accepted_client (Some ''id-1'')) =
            Inr (Bridged
                  \<lparr>clientWs = accepted_client,
                   remoteWs = \<lparr>readyState = CONNECTING, sent = [], broken = False\<rparr>,
                   remoteWsUrl = JStr ''wss://upstream.example/live'',
                   authorization = ''Bearer k'', promise = Pending, console = []\<rparr>)"
    by (simp add: on_connection_def Let_def server_log_def one_session_def
          createProxyConnection_def resolve_remoteWsUrl_def new_WebSocket_def any_address_def
          bearer_def)
  from registry_entries_persist
         [of one_session "''id-1''" _ sample_requests JSON_parse_sample any_address "Some ''k''"
             accepted_client, OF entry fresh]
       first entry fresh
  show ?thesis by (auto simp: list_all_iff)
qed

end
